theory Spec2Isabelle
  imports Main "HOL-Library.Char_ord" "HOL-Library.List_Lexorder" "HOL-Library.Sublist"
begin

section \<open>Python strings\<close>

text \<open>
  A Python \<^verbatim>\<open>str\<close> is a sequence of code points. It is modelled as a HOL \<open>string\<close>
  in which every \<open>char\<close> is one code point below 256 (ASCII and Latin-1); code points
  from 256 on are outside the model. The string order of \<open>List_Lexorder\<close> over
  \<open>Char_ord\<close> is the lexicographic order by code point that Python's \<^verbatim>\<open>sorted\<close>
  uses on strings.
\<close>

text \<open>\<^verbatim>\<open>str.isspace\<close> on one code point below 256: TAB, LF, VT, FF, CR, the four
  separators FS, GS, RS, US, the space, NEL and the no-break space.\<close>

definition isspace :: "char \<Rightarrow> bool" where
  "isspace c = (c \<in> set [CHR 0x09, CHR 0x0A, CHR 0x0B, CHR 0x0C, CHR 0x0D,
                          CHR 0x1C, CHR 0x1D, CHR 0x1E, CHR 0x1F, CHR 0x20,
                          CHR 0x85, CHR 0xA0])"

text \<open>The upper-case letters below 256 and, at the same positions, their lower-case
  forms: A to Z, and U+00C0 to U+00DE without the multiplication sign U+00D7.\<close>

definition upper_letters :: string where
  "upper_letters = ''ABCDEFGHIJKLMNOPQRSTUVWXYZ'' @
     [CHR 0xC0, CHR 0xC1, CHR 0xC2, CHR 0xC3, CHR 0xC4, CHR 0xC5, CHR 0xC6, CHR 0xC7,
      CHR 0xC8, CHR 0xC9, CHR 0xCA, CHR 0xCB, CHR 0xCC, CHR 0xCD, CHR 0xCE, CHR 0xCF,
      CHR 0xD0, CHR 0xD1, CHR 0xD2, CHR 0xD3, CHR 0xD4, CHR 0xD5, CHR 0xD6,
      CHR 0xD8, CHR 0xD9, CHR 0xDA, CHR 0xDB, CHR 0xDC, CHR 0xDD, CHR 0xDE]"

definition lower_letters :: string where
  "lower_letters = ''abcdefghijklmnopqrstuvwxyz'' @
     [CHR 0xE0, CHR 0xE1, CHR 0xE2, CHR 0xE3, CHR 0xE4, CHR 0xE5, CHR 0xE6, CHR 0xE7,
      CHR 0xE8, CHR 0xE9, CHR 0xEA, CHR 0xEB, CHR 0xEC, CHR 0xED, CHR 0xEE, CHR 0xEF,
      CHR 0xF0, CHR 0xF1, CHR 0xF2, CHR 0xF3, CHR 0xF4, CHR 0xF5, CHR 0xF6,
      CHR 0xF8, CHR 0xF9, CHR 0xFA, CHR 0xFB, CHR 0xFC, CHR 0xFD, CHR 0xFE]"

definition lower_char :: "char \<Rightarrow> char" where
  "lower_char c = (case map_of (zip upper_letters lower_letters) c of
                     Some d \<Rightarrow> d
                   | None \<Rightarrow> c)"

text \<open>\<^verbatim>\<open>s.lower()\<close>\<close>

definition lower :: "string \<Rightarrow> string" where
  "lower s = map lower_char s"

text \<open>\<^verbatim>\<open>s.strip()\<close>: leading and trailing white space removed.\<close>

definition strip :: "string \<Rightarrow> string" where
  "strip s = rev (dropWhile isspace (rev (dropWhile isspace s)))"

text \<open>\<^verbatim>\<open>s.split()\<close> with no argument: the maximal runs of characters that are not
  white space, in order; \<open>cur\<close> is the run being read.\<close>

fun split_from :: "string \<Rightarrow> string \<Rightarrow> string list" where
  "split_from cur [] = (if cur = [] then [] else [cur])"
| "split_from cur (c # cs) =
     (if isspace c then (if cur = [] then split_from [] cs else cur # split_from [] cs)
      else split_from (cur @ [c]) cs)"

definition split :: "string \<Rightarrow> string list" where
  "split s = split_from [] s"

section \<open>Python values and dictionaries\<close>

text \<open>
  The values a JSON file or a document of the store can hold, as far as the program
  looks at them: \<^verbatim>\<open>None\<close>, strings, integers and lists. On these, Python's \<^verbatim>\<open>==\<close> is
  structural equality.
\<close>

datatype pyval = PNone | PStr string | PInt int | PList "pyval list"

type_synonym pydict = "string \<rightharpoonup> pyval"

datatype py_error = AttributeError | KeyError

text \<open>Truth value of an object, as \<^verbatim>\<open>or\<close> and \<^verbatim>\<open>if\<close> test it.\<close>

fun truthy :: "pyval \<Rightarrow> bool" where
  "truthy PNone = False"
| "truthy (PStr s) = (s \<noteq> [])"
| "truthy (PInt n) = (n \<noteq> 0)"
| "truthy (PList vs) = (vs \<noteq> [])"

text \<open>\<^verbatim>\<open>a or b\<close>\<close>

definition py_or :: "pyval \<Rightarrow> pyval \<Rightarrow> pyval" where
  "py_or a b = (if truthy a then a else b)"

text \<open>\<^verbatim>\<open>d.get(k)\<close>, \<^verbatim>\<open>d.get(k, default)\<close> and \<^verbatim>\<open>d[k]\<close>\<close>

definition dict_get :: "pydict \<Rightarrow> string \<Rightarrow> pyval" where
  "dict_get d k = (case d k of None \<Rightarrow> PNone | Some v \<Rightarrow> v)"

definition dict_get_default :: "pydict \<Rightarrow> string \<Rightarrow> pyval \<Rightarrow> pyval" where
  "dict_get_default d k dflt = (case d k of None \<Rightarrow> dflt | Some v \<Rightarrow> v)"

definition getitem :: "pydict \<Rightarrow> string \<Rightarrow> py_error + pyval" where
  "getitem d k = (case d k of None \<Rightarrow> Inl KeyError | Some v \<Rightarrow> Inr v)"

text \<open>\<^verbatim>\<open>v.strip()\<close> and \<^verbatim>\<open>v.lower()\<close> on an arbitrary value: only a string has these
  methods, every other value raises \<^verbatim>\<open>AttributeError\<close>.\<close>

fun py_strip :: "pyval \<Rightarrow> py_error + string" where
  "py_strip (PStr s) = Inr (strip s)"
| "py_strip _ = Inl AttributeError"


text \<open>A comprehension \<^verbatim>\<open>[f(x) for x in xs]\<close> whose body can raise: the first
  exception, in iteration order, ends it.\<close>

fun map_raise :: "('a \<Rightarrow> py_error + 'b) \<Rightarrow> 'a list \<Rightarrow> py_error + 'b list" where
  "map_raise f [] = Inr []"
| "map_raise f (x # xs) =
     (case f x of
        Inl e \<Rightarrow> Inl e
      | Inr y \<Rightarrow> (case map_raise f xs of Inl e \<Rightarrow> Inl e | Inr ys \<Rightarrow> Inr (y # ys)))"

text \<open>\<^verbatim>\<open>(p.get("text") or "").strip().lower()\<close>: the key by which the three write paths
  compare texts (Proverbs_app.py lines 215 and 248, upload_json_to_firestore.py line 35).\<close>

definition norm_text :: "pydict \<Rightarrow> py_error + string" where
  "norm_text p =
     (case py_strip (py_or (dict_get p ''text'') (PStr [])) of
        Inl e \<Rightarrow> Inl e
      | Inr s \<Rightarrow> Inr (lower s))"

section \<open>The document store\<close>

text \<open>
  The collection \<^verbatim>\<open>proverbs\<close>: documents in the order \<^verbatim>\<open>stream()\<close> yields them, each
  an identifier with its fields. Identifiers are chosen by the store, so \<^verbatim>\<open>add\<close> takes
  the new identifier as an argument. Failures of the network calls are not modelled.
\<close>

type_synonym store = "(string \<times> pydict) list"

text \<open>\<^verbatim>\<open>proverbs_ref.add(doc)\<close>\<close>

definition collection_add :: "store \<Rightarrow> string \<Rightarrow> pydict \<Rightarrow> store" where
  "collection_add st new_id doc = st @ [(new_id, doc)]"

text \<open>\<^verbatim>\<open>load_proverbs\<close>: \<^verbatim>\<open>[{"id": doc.id, **doc.to_dict()} for doc in docs]\<close>; a field
  named \<^verbatim>\<open>id\<close> inside the document overrides the identifier.\<close>

definition load_proverbs :: "store \<Rightarrow> pydict list" where
  "load_proverbs st = map (\<lambda>(doc_id, fields). [''id'' \<mapsto> PStr doc_id] ++ fields) st"

section \<open>Query engine (Proverbs\_app.py)\<close>




section \<open>Admin interface (Proverbs\_app.py)\<close>

text \<open>What a button handler does: it shows an error and writes nothing, or it calls
  \<^verbatim>\<open>add_proverb_doc(doc)\<close>, or it calls \<^verbatim>\<open>update_proverb_doc(selected["id"], updated)\<close>.\<close>

datatype outcome = Rejected string | Added pydict | Updated pyval pydict

text \<open>\<^verbatim>\<open>s or "Uncategorized"\<close> on a string\<close>

definition or_uncategorized :: "string \<Rightarrow> string" where
  "or_uncategorized s = (if s \<noteq> [] then s else ''Uncategorized'')"

text \<open>\<^verbatim>\<open>[w.lower() for w in text.split()]\<close>\<close>

definition keywords_of :: "string \<Rightarrow> pyval" where
  "keywords_of text = PList (map (\<lambda>w. PStr (lower w)) (split text))"

text \<open>The handler of the button "Add Proverb" (lines 213 to 230); the four inputs are
  the strings of the form.\<close>

definition add_proverb :: "pydict list \<Rightarrow> string \<Rightarrow> string \<Rightarrow> string \<Rightarrow> string \<Rightarrow> py_error + outcome" where
  "add_proverb proverbs new_text new_meaning new_translation new_category =
     (case map_raise norm_text proverbs of
        Inl e \<Rightarrow> Inl e
      | Inr existing_texts \<Rightarrow>
          if strip new_text = [] \<or> strip new_meaning = []
          then Inr (Rejected ''Proverb text and meaning are required.'')
          else if lower (strip new_text) \<in> set existing_texts
          then Inr (Rejected ''This proverb already exists. It will not be added.'')
          else Inr (Added
                 [''text'' \<mapsto> PStr (strip new_text),
                  ''meaning'' \<mapsto> PStr (strip new_meaning),
                  ''translation'' \<mapsto> PStr (strip new_translation),
                  ''category'' \<mapsto> PStr (or_uncategorized (strip new_category)),
                  ''keywords'' \<mapsto> keywords_of new_text]))"

text \<open>\<^verbatim>\<open>[(p.get("text") or "").strip().lower() for p in proverbs if p["id"] != selected["id"]]\<close>\<close>

fun other_texts :: "pydict \<Rightarrow> pydict list \<Rightarrow> py_error + string list" where
  "other_texts selected [] = Inr []"
| "other_texts selected (p # ps) =
     (case getitem p ''id'' of
        Inl e \<Rightarrow> Inl e
      | Inr p_id \<Rightarrow>
          (case getitem selected ''id'' of
             Inl e \<Rightarrow> Inl e
           | Inr selected_id \<Rightarrow>
               if p_id \<noteq> selected_id
               then (case norm_text p of
                       Inl e \<Rightarrow> Inl e
                     | Inr t \<Rightarrow> (case other_texts selected ps of
                                  Inl e \<Rightarrow> Inl e
                                | Inr ts \<Rightarrow> Inr (t # ts)))
               else other_texts selected ps))"

text \<open>The handler of the button "Save Changes" (lines 246 to 261) for the selected
  record.\<close>

definition save_changes :: "pydict list \<Rightarrow> pydict \<Rightarrow> string \<Rightarrow> string \<Rightarrow> string \<Rightarrow> string \<Rightarrow> py_error + outcome" where
  "save_changes proverbs selected edit_text edit_meaning edit_translation edit_category =
     (case other_texts selected proverbs of
        Inl e \<Rightarrow> Inl e
      | Inr others \<Rightarrow>
          if lower (strip edit_text) \<in> set others
          then Inr (Rejected ''Cannot rename: another proverb with that exact text exists.'')
          else (case getitem selected ''id'' of
                  Inl e \<Rightarrow> Inl e
                | Inr selected_id \<Rightarrow>
                    Inr (Updated selected_id
                      [''text'' \<mapsto> PStr (strip edit_text),
                       ''meaning'' \<mapsto> PStr (strip edit_meaning),
                       ''translation'' \<mapsto> PStr (strip edit_translation),
                       ''category'' \<mapsto> PStr (or_uncategorized (strip edit_category)),
                       ''keywords'' \<mapsto> keywords_of edit_text])))"

section \<open>Bulk importer (upload\_json\_to\_firestore.py)\<close>

text \<open>The dictionary \<^verbatim>\<open>data\<close> of one candidate (lines 50 to 56); its values are
  evaluated in the order written.\<close>

definition make_data :: "pydict \<Rightarrow> string \<Rightarrow> py_error + pydict" where
  "make_data p text =
     (case py_strip (dict_get_default p ''meaning'' (PStr [])) of
        Inl e \<Rightarrow> Inl e
      | Inr meaning \<Rightarrow>
     (case py_strip (dict_get_default p ''translation'' (PStr [])) of
        Inl e \<Rightarrow> Inl e
      | Inr translation \<Rightarrow>
     (case py_strip (dict_get_default p ''category'' (PStr [])) of
        Inl e \<Rightarrow> Inl e
      | Inr category \<Rightarrow>
          Inr [''text'' \<mapsto> PStr text,
               ''meaning'' \<mapsto> PStr meaning,
               ''translation'' \<mapsto> PStr translation,
               ''category'' \<mapsto> PStr (or_uncategorized category),
               ''keywords'' \<mapsto> keywords_of text])))"

text \<open>The body of the loop for one candidate (lines 42 to 56): an exception, a
  \<^verbatim>\<open>continue\<close> (\<open>None\<close>), or the document handed to \<^verbatim>\<open>proverbs_ref.add\<close>.\<close>

definition import_candidate :: "string list \<Rightarrow> pydict \<Rightarrow> py_error + pydict option" where
  "import_candidate existing p =
     (case py_strip (py_or (dict_get p ''text'') (PStr [])) of
        Inl e \<Rightarrow> Inl e
      | Inr text \<Rightarrow>
          if text = [] then Inr None
          else if lower text \<in> set existing then Inr None
          else (case make_data p text of
                  Inl e \<Rightarrow> Inl e
                | Inr data \<Rightarrow> Inr (Some data)))"

text \<open>How a run ends: the final \<^verbatim>\<open>print\<close> is reached, or an exception leaves the
  script. The documents added before an exception stay in the store.\<close>

datatype ending = Completed | Raised py_error

text \<open>The loop over the candidates: \<open>added\<close> are the documents handed to
  \<^verbatim>\<open>proverbs_ref.add\<close> so far, in order.\<close>

fun import_loop :: "string list \<Rightarrow> pydict list \<Rightarrow> nat \<Rightarrow> pydict list \<Rightarrow> pydict list \<times> nat \<times> ending" where
  "import_loop existing added added_count [] = (added, added_count, Completed)"
| "import_loop existing added added_count (p # ps) =
     (case import_candidate existing p of
        Inl e \<Rightarrow> (added, added_count, Raised e)
      | Inr None \<Rightarrow> import_loop existing added added_count ps
      | Inr (Some data) \<Rightarrow> import_loop existing (added @ [data]) (added_count + 1) ps)"

text \<open>The script from line 33 on: the keys of \<^verbatim>\<open>existing\<close> are computed once from the
  store, then the loop runs over the candidates of the JSON file.\<close>

definition upload :: "store \<Rightarrow> pydict list \<Rightarrow> pydict list \<times> nat \<times> ending" where
  "upload st proverbs =
     (case map_raise (\<lambda>(doc_id, fields). norm_text fields) st of
        Inl e \<Rightarrow> ([], 0, Raised e)
      | Inr existing \<Rightarrow> import_loop existing [] 0 proverbs)"

text \<open>The store after the documents \<open>added\<close> were added in order; \<open>new_id n\<close> is the
  identifier the store gives to a document added when it holds \<open>n\<close> documents.\<close>

fun add_each :: "(nat \<Rightarrow> string) \<Rightarrow> store \<Rightarrow> pydict list \<Rightarrow> store" where
  "add_each new_id st [] = st"
| "add_each new_id st (d # ds) = add_each new_id (collection_add st (new_id (length st)) d) ds"

section \<open>Properties of records, in the words of the specification\<close>

text \<open>The uniqueness invariant: every document has a normalized text, and no two
  documents have the same one.\<close>

definition unique_texts :: "store \<Rightarrow> bool" where
  "unique_texts st =
     (case map_raise (\<lambda>(doc_id, fields). norm_text fields) st of
        Inl e \<Rightarrow> False
      | Inr keys \<Rightarrow> distinct keys)"

text \<open>Freshness of the keywords: the stored \<^verbatim>\<open>keywords\<close> are the lower-cased
  white-space-split tokens of the stored \<^verbatim>\<open>text\<close>.\<close>

definition keywords_match_text :: "pydict \<Rightarrow> bool" where
  "keywords_match_text doc =
     (case doc ''text'' of
        Some (PStr text) \<Rightarrow> doc ''keywords'' = Some (PList (map PStr (map lower (split text))))
      | _ \<Rightarrow> False)"

section \<open>The bulk importer, in the words of the specification\<close>

text \<open>A field that is a string or missing, and one that may also be \<^verbatim>\<open>null\<close>.\<close>

fun str_or_absent :: "pyval option \<Rightarrow> bool" where
  "str_or_absent None = True"
| "str_or_absent (Some (PStr s)) = True"
| "str_or_absent (Some v) = False"

fun str_null_or_absent :: "pyval option \<Rightarrow> bool" where
  "str_null_or_absent None = True"
| "str_null_or_absent (Some PNone) = True"
| "str_null_or_absent (Some (PStr s)) = True"
| "str_null_or_absent (Some v) = False"

text \<open>The string in a field; the empty string when the field is missing or not a string.\<close>

definition field_str :: "pydict \<Rightarrow> string \<Rightarrow> string" where
  "field_str p k = (case p k of Some (PStr s) \<Rightarrow> s | _ \<Rightarrow> [])"

text \<open>A candidate of the input format: \<^verbatim>\<open>text\<close> is a string, \<^verbatim>\<open>null\<close> or missing; \<^verbatim>\<open>meaning\<close>,
  \<^verbatim>\<open>translation\<close> and \<^verbatim>\<open>category\<close> are strings or missing.\<close>

definition well_typed_candidate :: "pydict \<Rightarrow> bool" where
  "well_typed_candidate p =
     (str_null_or_absent (p ''text'') \<and> str_or_absent (p ''meaning'') \<and>
      str_or_absent (p ''translation'') \<and> str_or_absent (p ''category''))"

text \<open>The trimmed, lower-cased text of a record.\<close>

definition key_of :: "pydict \<Rightarrow> string" where
  "key_of p = lower (strip (field_str p ''text''))"

text \<open>The admission rule: the text is not empty after trimming, and its key is not
  among the keys of the existing records.\<close>

definition admitted :: "string list \<Rightarrow> pydict \<Rightarrow> bool" where
  "admitted existing p = (strip (field_str p ''text'') \<noteq> [] \<and> key_of p \<notin> set existing)"

text \<open>The canonical record of a candidate.\<close>

definition normalized :: "pydict \<Rightarrow> pydict" where
  "normalized p =
     [''text'' \<mapsto> PStr (strip (field_str p ''text'')),
      ''meaning'' \<mapsto> PStr (strip (field_str p ''meaning'')),
      ''translation'' \<mapsto> PStr (strip (field_str p ''translation'')),
      ''category'' \<mapsto> PStr (if strip (field_str p ''category'') = [] then ''Uncategorized''
                               else strip (field_str p ''category'')),
      ''keywords'' \<mapsto> PList (map PStr (map lower (split (strip (field_str p ''text'')))))]"

text \<open>The keys of the records in the store.\<close>

definition stored_keys :: "store \<Rightarrow> string list" where
  "stored_keys st = map (\<lambda>(doc_id, fields). key_of fields) st"

text \<open>The category rule: an input that is empty after trimming is stored as the sentinel,
  any other input as its trimmed value; the stored category is never the empty string.\<close>

definition category_stored :: "string \<Rightarrow> pydict \<Rightarrow> bool" where
  "category_stored raw doc =
     (doc ''category'' = Some (PStr (if strip raw = [] then ''Uncategorized'' else strip raw)) \<and>
      doc ''category'' \<noteq> Some (PStr []))"

text \<open>The category rule for a candidate of the importer: the input is the candidate's
  \<^verbatim>\<open>category\<close> field, the empty string when the field is missing.\<close>

definition candidate_category_stored :: "pydict \<Rightarrow> pydict \<Rightarrow> bool" where
  "candidate_category_stored p doc =
     (case dict_get_default p ''category'' (PStr []) of
        PStr raw \<Rightarrow> category_stored raw doc
      | _ \<Rightarrow> False)"

text \<open>The candidates of a batch from which the loop builds a document that it hands to
  the store, in order: a candidate that is skipped is left out, and nothing follows a
  candidate that raises.\<close>

fun handed_over :: "string list \<Rightarrow> pydict list \<Rightarrow> pydict list" where
  "handed_over existing [] = []"
| "handed_over existing (p # ps) =
     (case import_candidate existing p of
        Inl e \<Rightarrow> []
      | Inr None \<Rightarrow> handed_over existing ps
      | Inr (Some data) \<Rightarrow> p # handed_over existing ps)"

section \<open>Keyword search, in the words of the specification\<close>




section \<open>Category listing, in the words of the specification\<close>


section \<open>The duplicate check of an edit, in the words of the specification\<close>

text \<open>Some record with an identifier other than that of the selected record has the
  trimmed, lower-cased text of the edit.\<close>

definition duplicate_of_other :: "pydict list \<Rightarrow> pydict \<Rightarrow> string \<Rightarrow> bool" where
  "duplicate_of_other proverbs selected edit_text =
     (\<exists>p\<in>set proverbs. p ''id'' \<noteq> selected ''id'' \<and> key_of p = lower (strip edit_text))"

text \<open>A record as \<^verbatim>\<open>load_proverbs\<close> returns it: it has an identifier, and its text is a
  string, \<^verbatim>\<open>null\<close> or missing.\<close>

definition loaded_record :: "pydict \<Rightarrow> bool" where
  "loaded_record p = (p ''id'' \<noteq> None \<and> str_null_or_absent (p ''text''))"

section \<open>Facts about strings\<close>

lemma split_from_spaces:
  "\<forall>c\<in>set ws. isspace c \<Longrightarrow> split_from cur ws = (if cur = [] then [] else [cur])"
  by (induction ws arbitrary: cur) auto

lemma split_from_append_spaces:
  "\<forall>c\<in>set ws. isspace c \<Longrightarrow> split_from cur (s @ ws) = split_from cur s"
  by (induction s arbitrary: cur) (auto simp: split_from_spaces)

lemma split_from_dropWhile:
  "split_from [] (dropWhile isspace s) = split_from [] s"
  by (induction s) auto

lemma strip_decomp:
  "dropWhile isspace s = strip s @ rev (takeWhile isspace (rev (dropWhile isspace s)))"
proof -
  let ?t = "rev (dropWhile isspace s)"
  have "rev (dropWhile isspace ?t) @ rev (takeWhile isspace ?t) =
        rev (takeWhile isspace ?t @ dropWhile isspace ?t)"
    by (simp only: rev_append)
  also have "\<dots> = dropWhile isspace s"
    by (simp only: takeWhile_dropWhile_id rev_rev_ident)
  finally show ?thesis by (simp only: strip_def)
qed

lemma split_strip: "split (strip s) = split s"
proof -
  let ?ws = "rev (takeWhile isspace (rev (dropWhile isspace s)))"
  have ws: "\<forall>c\<in>set ?ws. isspace c"
    by (auto dest: set_takeWhileD)
  have "split s = split_from [] (dropWhile isspace s)"
    by (simp add: split_def split_from_dropWhile)
  also have "\<dots> = split_from [] (strip s @ ?ws)"
    using strip_decomp [of s] by simp
  also have "\<dots> = split_from [] (strip s)"
    using ws by (rule split_from_append_spaces)
  finally show ?thesis by (simp add: split_def)
qed


lemma dropWhile_strip: "dropWhile isspace (strip s) = strip s"
proof (cases "strip s")
  case Nil
  then show ?thesis by simp
next
  case (Cons c cs)
  have "dropWhile isspace s \<noteq> []" using Cons strip_decomp[of s]
    by (metis append_is_Nil_conv list.simps(3))
  then have "\<not> isspace (hd (dropWhile isspace s))" by (rule hd_dropWhile)
  moreover have "hd (dropWhile isspace s) = c" using Cons strip_decomp[of s]
    by (metis hd_append2 list.sel(1) list.simps(3))
  ultimately show ?thesis using Cons by simp
qed

lemma strip_strip: "strip (strip s) = strip s"
proof -
  have "dropWhile isspace (rev (strip s)) = rev (strip s)"
  proof (cases "dropWhile isspace (rev (dropWhile isspace s))")
    case Nil
    then show ?thesis by (simp add: strip_def)
  next
    case (Cons c cs)
    then have "\<not> isspace c"
      by (metis hd_dropWhile list.sel(1) list.simps(3))
    then show ?thesis using Cons by (simp add: strip_def)
  qed
  then show ?thesis
    using dropWhile_strip[of s] by (simp add: strip_def[of "strip s"])
qed


section \<open>What the write paths store\<close>

lemma keywords_of_map: "keywords_of t = PList (map PStr (map lower (split t)))"
  by (simp add: keywords_of_def comp_def)

lemma add_proverb_Added:
  "add_proverb proverbs t m tr c = Inr (Added doc) \<Longrightarrow>
   doc = [''text'' \<mapsto> PStr (strip t), ''meaning'' \<mapsto> PStr (strip m),
          ''translation'' \<mapsto> PStr (strip tr),
          ''category'' \<mapsto> PStr (or_uncategorized (strip c)),
          ''keywords'' \<mapsto> keywords_of t]"
  by (simp add: add_proverb_def split: sum.splits if_splits)


lemma doc_keywords:
  "keywords_match_text [''text'' \<mapsto> PStr (strip t), ''meaning'' \<mapsto> m,
          ''translation'' \<mapsto> tr, ''category'' \<mapsto> c, ''keywords'' \<mapsto> keywords_of t]"
  by (simp add: keywords_match_text_def keywords_of_map split_strip)

lemma add_proverb_keywords:
  "add_proverb proverbs t m tr c = Inr (Added doc) \<Longrightarrow> keywords_match_text doc"
  using add_proverb_Added [of proverbs t m tr c doc] doc_keywords [of t] by simp

lemma save_changes_Updated:
  "save_changes proverbs selected t m tr c = Inr (Updated doc_id doc) \<Longrightarrow>
   doc = [''text'' \<mapsto> PStr (strip t), ''meaning'' \<mapsto> PStr (strip m),
          ''translation'' \<mapsto> PStr (strip tr),
          ''category'' \<mapsto> PStr (or_uncategorized (strip c)),
          ''keywords'' \<mapsto> keywords_of t]"
  by (simp add: save_changes_def split: sum.splits if_splits)

lemma save_changes_keywords:
  "save_changes proverbs selected t m tr c = Inr (Updated doc_id doc) \<Longrightarrow> keywords_match_text doc"
  using save_changes_Updated [of proverbs selected t m tr c doc_id doc] doc_keywords [of t] by simp

lemma make_data_Inr:
  "make_data p text = Inr data \<Longrightarrow>
   \<exists>m tr c. dict_get_default p ''meaning'' (PStr []) = PStr m \<and>
            dict_get_default p ''translation'' (PStr []) = PStr tr \<and>
            dict_get_default p ''category'' (PStr []) = PStr c \<and>
            data = [''text'' \<mapsto> PStr text, ''meaning'' \<mapsto> PStr (strip m),
                    ''translation'' \<mapsto> PStr (strip tr),
                    ''category'' \<mapsto> PStr (or_uncategorized (strip c)),
                    ''keywords'' \<mapsto> keywords_of text]"
proof -
  assume a: "make_data p text = Inr data"
  obtain m where m: "dict_get_default p ''meaning'' (PStr []) = PStr m"
    using a by (cases "dict_get_default p ''meaning'' (PStr [])") (simp_all add: make_data_def)
  obtain tr where tr: "dict_get_default p ''translation'' (PStr []) = PStr tr"
    using a m by (cases "dict_get_default p ''translation'' (PStr [])") (simp_all add: make_data_def)
  obtain c where c: "dict_get_default p ''category'' (PStr []) = PStr c"
    using a m tr by (cases "dict_get_default p ''category'' (PStr [])") (simp_all add: make_data_def)
  show ?thesis using a m tr c by (simp add: make_data_def)
qed

lemma import_candidate_Some:
  "import_candidate existing p = Inr (Some data) \<Longrightarrow>
   \<exists>t. py_or (dict_get p ''text'') (PStr []) = PStr t \<and> strip t \<noteq> [] \<and>
       lower (strip t) \<notin> set existing \<and> make_data p (strip t) = Inr data"
proof -
  assume a: "import_candidate existing p = Inr (Some data)"
  obtain t where t: "py_or (dict_get p ''text'') (PStr []) = PStr t"
    using a by (cases "py_or (dict_get p ''text'') (PStr [])") (simp_all add: import_candidate_def)
  show ?thesis using a t
    by (simp add: import_candidate_def split: if_splits sum.splits)
qed

lemma import_candidate_keywords:
  "import_candidate existing p = Inr (Some data) \<Longrightarrow> keywords_match_text data"
proof -
  assume "import_candidate existing p = Inr (Some data)"
  then obtain t where "make_data p (strip t) = Inr data"
    using import_candidate_Some by blast
  then obtain m tr c where "data = [''text'' \<mapsto> PStr (strip t), ''meaning'' \<mapsto> PStr (strip m),
                    ''translation'' \<mapsto> PStr (strip tr),
                    ''category'' \<mapsto> PStr (or_uncategorized (strip c)),
                    ''keywords'' \<mapsto> keywords_of (strip t)]"
    using make_data_Inr by blast
  then show ?thesis
    by (simp add: keywords_match_text_def keywords_of_map)
qed

lemma import_loop_invariant:
  assumes "import_loop existing added0 n0 batch = (added, n, e)"
    and "\<forall>d\<in>set added0. P d"
    and "\<And>p data. p \<in> set batch \<Longrightarrow> import_candidate existing p = Inr (Some data) \<Longrightarrow> P data"
  shows "\<forall>d\<in>set added. P d"
  using assms
proof (induction batch arbitrary: added0 n0)
  case Nil
  then show ?case by simp
next
  case (Cons p ps)
  show ?case
  proof (cases "import_candidate existing p")
    case (Inl err)
    with Cons.prems(1,2) show ?thesis by simp
  next
    case (Inr r)
    show ?thesis
    proof (cases r)
      case None
      with Inr Cons.prems(1) have run: "import_loop existing added0 n0 ps = (added, n, e)" by simp
      show ?thesis
      proof (rule Cons.IH [OF run Cons.prems(2)])
        fix q dq
        assume "q \<in> set ps" and c: "import_candidate existing q = Inr (Some dq)"
        then have "q \<in> set (p # ps)" by simp
        then show "P dq" using c by (rule Cons.prems(3))
      qed
    next
      case (Some data)
      with Inr Cons.prems(1)
      have run: "import_loop existing (added0 @ [data]) (n0 + 1) ps = (added, n, e)" by simp
      have "p \<in> set (p # ps)" by simp
      moreover have "import_candidate existing p = Inr (Some data)" using Inr Some by simp
      ultimately have "P data" by (rule Cons.prems(3))
      then have inv: "\<forall>d\<in>set (added0 @ [data]). P d" using Cons.prems(2) by simp
      show ?thesis
      proof (rule Cons.IH [OF run inv])
        fix q dq
        assume "q \<in> set ps" and c: "import_candidate existing q = Inr (Some dq)"
        then have "q \<in> set (p # ps)" by simp
        then show "P dq" using c by (rule Cons.prems(3))
      qed
    qed
  qed
qed

lemma upload_added:
  assumes "upload st batch = (added, n, e)"
    and "\<And>existing p data. p \<in> set batch \<Longrightarrow> import_candidate existing p = Inr (Some data) \<Longrightarrow> P data"
  shows "\<forall>d\<in>set added. P d"
proof (cases "map_raise (\<lambda>(doc_id, fields). norm_text fields) st")
  case (Inl err)
  with assms(1) show ?thesis by (simp add: upload_def)
next
  case (Inr existing)
  with assms(1) have run: "import_loop existing [] 0 batch = (added, n, e)"
    by (simp add: upload_def)
  show ?thesis
  proof (rule import_loop_invariant [OF run])
    show "\<forall>d\<in>set []. P d" by simp
  next
    fix p data
    assume "p \<in> set batch" and "import_candidate existing p = Inr (Some data)"
    then show "P data" by (rule assms(2))
  qed
qed

section \<open>Evaluation on concrete inputs\<close>

lemmas string_eval = isspace_def strip_def split_def lower_def lower_char_def
  upper_letters_def lower_letters_def

lemma strip_example: "strip ''  Khomo  ke Thota '' = ''Khomo  ke Thota''"
  by (simp add: strip_def isspace_def)

lemma keywords_of_example: "keywords_of ''  Khomo  ke Thota '' = PList [PStr ''khomo'', PStr ''ke'', PStr ''thota'']"
  by (simp add: keywords_of_def string_eval)

lemma add_proverb_example: "add_proverb [] ''  Khomo  ke Thota '' '' m '' [] [] =
   Inr (Added [''text'' \<mapsto> PStr ''Khomo  ke Thota'', ''meaning'' \<mapsto> PStr ''m'',
     ''translation'' \<mapsto> PStr [], ''category'' \<mapsto> PStr ''Uncategorized'',
     ''keywords'' \<mapsto> PList [PStr ''khomo'', PStr ''ke'', PStr ''thota'']])"
  by (simp add: add_proverb_def string_eval keywords_of_def or_uncategorized_def)


lemma save_changes_example: "save_changes [[''id'' \<mapsto> PStr ''a1'', ''text'' \<mapsto> PStr ''Khomo'']]
     [''id'' \<mapsto> PStr ''a1'', ''text'' \<mapsto> PStr ''Khomo''] '' Tau  ea hlaha '' ''m'' [] '' Animals '' =
   Inr (Updated (PStr ''a1'') [''text'' \<mapsto> PStr ''Tau  ea hlaha'', ''meaning'' \<mapsto> PStr ''m'',
     ''translation'' \<mapsto> PStr [], ''category'' \<mapsto> PStr ''Animals'',
     ''keywords'' \<mapsto> PList [PStr ''tau'', PStr ''ea'', PStr ''hlaha'']])"
  by (simp add: save_changes_def getitem_def string_eval keywords_of_def or_uncategorized_def)


lemma import_candidate_example: "import_candidate [] [''text'' \<mapsto> PStr '' Ntja  e   Tsoha ''] =
   Inr (Some [''text'' \<mapsto> PStr ''Ntja  e   Tsoha'', ''meaning'' \<mapsto> PStr [],
     ''translation'' \<mapsto> PStr [], ''category'' \<mapsto> PStr ''Uncategorized'',
     ''keywords'' \<mapsto> PList [PStr ''ntja'', PStr ''e'', PStr ''tsoha'']])"
  by (simp add: import_candidate_def make_data_def dict_get_def dict_get_default_def py_or_def
       string_eval keywords_of_def or_uncategorized_def)

lemma upload_example: "upload [] [[''text'' \<mapsto> PStr '' Ntja  e   Tsoha '']] =
   ([[''text'' \<mapsto> PStr ''Ntja  e   Tsoha'', ''meaning'' \<mapsto> PStr [],
     ''translation'' \<mapsto> PStr [], ''category'' \<mapsto> PStr ''Uncategorized'',
     ''keywords'' \<mapsto> PList [PStr ''ntja'', PStr ''e'', PStr ''tsoha'']]], 1, Completed)"
  by (simp add: upload_def import_candidate_example)

section \<open>Keywords\<close>

text \<open>
  C5. For every record persisted by admin add, admin edit or the bulk importer, the stored
  \<^verbatim>\<open>keywords\<close> field is the lower-cased white-space-split tokenization of the stored
  \<^verbatim>\<open>text\<close> field (the text after trimming), for every input text: the add and edit
  handlers tokenize the untrimmed input, which gives the same tokens as the trimmed text
  (\<open>split_strip\<close>); the importer tokenizes the trimmed text itself. For the importer the
  statement covers every document handed to the store, also in a run that ends in an
  exception.
\<close>

theorem keywords_follow_stored_text:
  "(add_proverb proverbs t m tr c = Inr (Added doc) \<longrightarrow> keywords_match_text doc) \<and>
   (save_changes proverbs selected t m tr c = Inr (Updated doc_id doc) \<longrightarrow> keywords_match_text doc) \<and>
   (upload st batch = (added, n, e) \<longrightarrow> (\<forall>d\<in>set added. keywords_match_text d))"
proof (intro conjI impI)
  assume "add_proverb proverbs t m tr c = Inr (Added doc)"
  then show "keywords_match_text doc" by (rule add_proverb_keywords)
next
  assume "save_changes proverbs selected t m tr c = Inr (Updated doc_id doc)"
  then show "keywords_match_text doc" by (rule save_changes_keywords)
next
  assume "upload st batch = (added, n, e)"
  then show "\<forall>d\<in>set added. keywords_match_text d"
    by (rule upload_added) (rule import_candidate_keywords)
qed

theorem keywords_follow_stored_text_witness:
  "keywords_match_text
     [''text'' \<mapsto> PStr ''Khomo  ke Thota'', ''meaning'' \<mapsto> PStr ''m'',
      ''translation'' \<mapsto> PStr [], ''category'' \<mapsto> PStr ''Uncategorized'',
      ''keywords'' \<mapsto> PList [PStr ''khomo'', PStr ''ke'', PStr ''thota'']] \<and>
   keywords_match_text
     [''text'' \<mapsto> PStr ''Tau  ea hlaha'', ''meaning'' \<mapsto> PStr ''m'',
      ''translation'' \<mapsto> PStr [], ''category'' \<mapsto> PStr ''Animals'',
      ''keywords'' \<mapsto> PList [PStr ''tau'', PStr ''ea'', PStr ''hlaha'']] \<and>
   keywords_match_text
     [''text'' \<mapsto> PStr ''Ntja  e   Tsoha'', ''meaning'' \<mapsto> PStr [],
      ''translation'' \<mapsto> PStr [], ''category'' \<mapsto> PStr ''Uncategorized'',
      ''keywords'' \<mapsto> PList [PStr ''ntja'', PStr ''e'', PStr ''tsoha'']]"
proof (intro conjI)
  show "keywords_match_text
     [''text'' \<mapsto> PStr ''Khomo  ke Thota'', ''meaning'' \<mapsto> PStr ''m'',
      ''translation'' \<mapsto> PStr [], ''category'' \<mapsto> PStr ''Uncategorized'',
      ''keywords'' \<mapsto> PList [PStr ''khomo'', PStr ''ke'', PStr ''thota'']]"
    by (rule keywords_follow_stored_text
          [THEN conjunct1, THEN mp, OF add_proverb_example])
next
  show "keywords_match_text
     [''text'' \<mapsto> PStr ''Tau  ea hlaha'', ''meaning'' \<mapsto> PStr ''m'',
      ''translation'' \<mapsto> PStr [], ''category'' \<mapsto> PStr ''Animals'',
      ''keywords'' \<mapsto> PList [PStr ''tau'', PStr ''ea'', PStr ''hlaha'']]"
    by (rule keywords_follow_stored_text
          [THEN conjunct2, THEN conjunct1, THEN mp, OF save_changes_example])
next
  show "keywords_match_text
     [''text'' \<mapsto> PStr ''Ntja  e   Tsoha'', ''meaning'' \<mapsto> PStr [],
      ''translation'' \<mapsto> PStr [], ''category'' \<mapsto> PStr ''Uncategorized'',
      ''keywords'' \<mapsto> PList [PStr ''ntja'', PStr ''e'', PStr ''tsoha'']]"
    using keywords_follow_stored_text
          [THEN conjunct2, THEN conjunct2, THEN mp, OF upload_example]
    by simp
qed

section \<open>The bulk importer\<close>

lemma py_or_text:
  "str_null_or_absent (p ''text'') \<Longrightarrow>
   py_or (dict_get p ''text'') (PStr []) = PStr (field_str p ''text'')"
  by (cases "p ''text''" rule: str_null_or_absent.cases)
     (simp_all add: py_or_def dict_get_def field_str_def)

lemma get_default_str:
  "str_or_absent (p k) \<Longrightarrow> dict_get_default p k (PStr []) = PStr (field_str p k)"
  by (cases "p k" rule: str_or_absent.cases)
     (simp_all add: dict_get_default_def field_str_def)

lemma norm_text_well_typed:
  "str_null_or_absent (p ''text'') \<Longrightarrow> norm_text p = Inr (key_of p)"
  by (simp add: norm_text_def py_or_text key_of_def)

lemma make_data_well_typed:
  assumes "well_typed_candidate p"
  shows "make_data p (strip (field_str p ''text'')) = Inr (normalized p)"
proof -
  have "dict_get_default p ''meaning'' (PStr []) = PStr (field_str p ''meaning'')"
       "dict_get_default p ''translation'' (PStr []) = PStr (field_str p ''translation'')"
       "dict_get_default p ''category'' (PStr []) = PStr (field_str p ''category'')"
    using assms by (simp_all add: well_typed_candidate_def get_default_str)
  then show ?thesis
    by (simp add: make_data_def normalized_def or_uncategorized_def keywords_of_map)
qed

lemma import_candidate_well_typed:
  assumes "well_typed_candidate p"
  shows "import_candidate existing p =
           Inr (if admitted existing p then Some (normalized p) else None)"
proof -
  have "py_or (dict_get p ''text'') (PStr []) = PStr (field_str p ''text'')"
    using assms by (simp add: well_typed_candidate_def py_or_text)
  then show ?thesis
    using make_data_well_typed [OF assms]
    by (simp add: import_candidate_def admitted_def key_of_def)
qed

lemma import_loop_well_typed:
  "\<forall>p\<in>set batch. well_typed_candidate p \<Longrightarrow>
   import_loop existing added n batch =
     (added @ map normalized (filter (admitted existing) batch),
      n + length (filter (admitted existing) batch), Completed)"
proof (induction batch arbitrary: added n)
  case Nil
  then show ?case by simp
next
  case (Cons p ps)
  then have wt: "well_typed_candidate p" and rest: "\<forall>q\<in>set ps. well_typed_candidate q"
    by simp_all
  show ?case
  proof (cases "admitted existing p")
    case True
    then show ?thesis
      using import_candidate_well_typed [OF wt, of existing] Cons.IH [OF rest] by simp
  next
    case False
    then show ?thesis
      using import_candidate_well_typed [OF wt, of existing] Cons.IH [OF rest] by simp
  qed
qed

lemma map_raise_total:
  "\<forall>x\<in>set xs. f x = Inr (g x) \<Longrightarrow> map_raise f xs = Inr (map g xs)"
  by (induction xs) simp_all

lemmas importer_eval = upload_def import_candidate_def make_data_def dict_get_def
  dict_get_default_def py_or_def norm_text_def keywords_of_def or_uncategorized_def

text \<open>
  C2. For every batch of candidates of the input format and every store whose texts are
  strings (or \<^verbatim>\<open>null\<close>, or missing), the importer admits exactly the candidates whose text
  is not empty after trimming and whose trimmed, lower-cased text is not among the keys of
  the store as it was before the loop: the documents added are the canonical records of
  these candidates, in order, the count is their number, and the run completes without an
  exception. The rule looks at each candidate alone, so a candidate that repeats an earlier
  candidate of the same batch is admitted like the earlier one.
\<close>

theorem bulk_import_admits:
  assumes store: "\<forall>d\<in>set st. str_null_or_absent (snd d ''text'')"
    and batch: "\<forall>p\<in>set batch. well_typed_candidate p"
  shows "upload st batch =
           (map normalized (filter (admitted (stored_keys st)) batch),
            length (filter (admitted (stored_keys st)) batch),
            Completed)"
proof -
  have "\<forall>d\<in>set st. (\<lambda>(doc_id, fields). norm_text fields) d
                      = Inr ((\<lambda>(doc_id, fields). key_of fields) d)"
    using store by (auto simp: norm_text_well_typed)
  then have "map_raise (\<lambda>(doc_id, fields). norm_text fields) st = Inr (stored_keys st)"
    unfolding stored_keys_def by (rule map_raise_total)
  then show ?thesis
    using import_loop_well_typed [OF batch, of "stored_keys st" "[]" 0]
    by (simp add: upload_def)
qed

theorem bulk_import_admits_witness:
  "upload [(''x1'', [''text'' \<mapsto> PStr ''Khomo''])]
     [[''text'' \<mapsto> PStr ''Tau'', ''meaning'' \<mapsto> PStr '' lion ''],
      [''text'' \<mapsto> PStr '' ''],
      [''text'' \<mapsto> PStr '' KHOMO ''],
      [''meaning'' \<mapsto> PStr ''m''],
      [''text'' \<mapsto> PStr ''tau '']] =
   ([[''text'' \<mapsto> PStr ''Tau'', ''meaning'' \<mapsto> PStr ''lion'',
      ''translation'' \<mapsto> PStr [], ''category'' \<mapsto> PStr ''Uncategorized'',
      ''keywords'' \<mapsto> PList [PStr ''tau'']],
     [''text'' \<mapsto> PStr ''tau'', ''meaning'' \<mapsto> PStr [],
      ''translation'' \<mapsto> PStr [], ''category'' \<mapsto> PStr ''Uncategorized'',
      ''keywords'' \<mapsto> PList [PStr ''tau'']]], 2, Completed)"
  using bulk_import_admits [of "[(''x1'', [''text'' \<mapsto> PStr ''Khomo''])]"
     "[[''text'' \<mapsto> PStr ''Tau'', ''meaning'' \<mapsto> PStr '' lion ''],
      [''text'' \<mapsto> PStr '' ''],
      [''text'' \<mapsto> PStr '' KHOMO ''],
      [''meaning'' \<mapsto> PStr ''m''],
      [''text'' \<mapsto> PStr ''tau '']]"]
  by (simp add: well_typed_candidate_def stored_keys_def admitted_def key_of_def
        normalized_def field_str_def string_eval)

text \<open>
  C3. On the batch of three candidates "Khomo ke thota", "" and "khomo ke thota" against
  an empty store, the importer adds two documents and reports 2: the second candidate
  is skipped for its empty text, the third is not recognised as a duplicate of the first.
\<close>

theorem bulk_import_same_batch_duplicate:
  "upload [] [[''text'' \<mapsto> PStr ''Khomo ke thota''],
              [''text'' \<mapsto> PStr ''''],
              [''text'' \<mapsto> PStr ''khomo ke thota'']] =
   ([[''text'' \<mapsto> PStr ''Khomo ke thota'', ''meaning'' \<mapsto> PStr [],
      ''translation'' \<mapsto> PStr [], ''category'' \<mapsto> PStr ''Uncategorized'',
      ''keywords'' \<mapsto> PList [PStr ''khomo'', PStr ''ke'', PStr ''thota'']],
     [''text'' \<mapsto> PStr ''khomo ke thota'', ''meaning'' \<mapsto> PStr [],
      ''translation'' \<mapsto> PStr [], ''category'' \<mapsto> PStr ''Uncategorized'',
      ''keywords'' \<mapsto> PList [PStr ''khomo'', PStr ''ke'', PStr ''thota'']]], 2, Completed)"
  by (simp add: importer_eval string_eval)

section \<open>Categories on write\<close>

lemma doc_category:
  "category_stored c [''text'' \<mapsto> t, ''meaning'' \<mapsto> m, ''translation'' \<mapsto> tr,
      ''category'' \<mapsto> PStr (or_uncategorized (strip c)), ''keywords'' \<mapsto> k]"
  by (simp add: category_stored_def or_uncategorized_def)

lemma add_proverb_category:
  "add_proverb proverbs t m tr c = Inr (Added doc) \<Longrightarrow> category_stored c doc"
  using add_proverb_Added [of proverbs t m tr c doc] doc_category [of c] by simp

lemma save_changes_category:
  "save_changes proverbs selected t m tr c = Inr (Updated doc_id doc) \<Longrightarrow> category_stored c doc"
  using save_changes_Updated [of proverbs selected t m tr c doc_id doc] doc_category [of c] by simp

lemma import_candidate_category:
  assumes "import_candidate existing p = Inr (Some data)"
  shows "\<exists>c. dict_get_default p ''category'' (PStr []) = PStr c \<and> category_stored c data"
proof -
  obtain t where "make_data p (strip t) = Inr data"
    using assms import_candidate_Some by blast
  then obtain m tr c where c: "dict_get_default p ''category'' (PStr []) = PStr c"
    and data: "data = [''text'' \<mapsto> PStr (strip t), ''meaning'' \<mapsto> PStr (strip m),
                    ''translation'' \<mapsto> PStr (strip tr),
                    ''category'' \<mapsto> PStr (or_uncategorized (strip c)),
                    ''keywords'' \<mapsto> keywords_of (strip t)]"
    using make_data_Inr by blast
  have "category_stored c data" unfolding data by (rule doc_category)
  with c show ?thesis by blast
qed

lemma import_candidate_category_stored:
  "import_candidate existing p = Inr (Some data) \<Longrightarrow> candidate_category_stored p data"
  using import_candidate_category [of existing p data]
  by (auto simp: candidate_category_stored_def)

lemma import_loop_pairs:
  assumes "list_all2 candidate_category_stored cands0 added0"
  shows "list_all2 candidate_category_stored
           (cands0 @ handed_over existing batch)
           (fst (import_loop existing added0 n0 batch))"
  using assms
proof (induction batch arbitrary: cands0 added0 n0)
  case Nil
  then show ?case by simp
next
  case (Cons p ps)
  show ?case
  proof (cases "import_candidate existing p")
    case (Inl err)
    then show ?thesis using Cons.prems by simp
  next
    case (Inr r)
    show ?thesis
    proof (cases r)
      case None
      then show ?thesis using Inr Cons.IH [OF Cons.prems] by simp
    next
      case (Some data)
      have "candidate_category_stored p data"
        using Inr Some by (simp add: import_candidate_category_stored)
      then have "list_all2 candidate_category_stored (cands0 @ [p]) (added0 @ [data])"
        using Cons.prems by (simp add: list_all2_appendI)
      then have "list_all2 candidate_category_stored
           ((cands0 @ [p]) @ handed_over existing ps)
           (fst (import_loop existing (added0 @ [data]) (n0 + 1) ps))"
        by (rule Cons.IH)
      then show ?thesis using Inr Some by simp
    qed
  qed
qed

lemma upload_pairs:
  "map_raise (\<lambda>(doc_id, fields). norm_text fields) st = Inr existing \<Longrightarrow>
   list_all2 candidate_category_stored (handed_over existing batch) (fst (upload st batch))"
  using import_loop_pairs [of "[]" "[]" existing batch 0]
  by (simp add: upload_def)

lemma handed_over_well_typed:
  "\<forall>p\<in>set batch. well_typed_candidate p \<Longrightarrow>
   handed_over existing batch = filter (admitted existing) batch"
  by (induction batch) (simp_all add: import_candidate_well_typed)

text \<open>
  C7. On every create and update (admin add, admin edit, bulk import) a category that is
  empty after trimming is stored as "Uncategorized" and any other category as its trimmed
  value (" Wisdom " as "Wisdom"); no record written by these paths has the empty string as
  its category. For the importer the raw category is the \<^verbatim>\<open>category\<close> field of the
  candidate the document is built from, the empty string when the field is missing: the
  rule holds for the body of the loop on one candidate, and over a whole run the documents
  handed to the store are, one for one and in order, those of the candidates that the loop
  neither skips nor fails on, each with the category of its own candidate. A run that fails
  while reading the store hands over nothing. For a batch of the input format the
  candidates with a document are those that the admission rule admits.
\<close>

theorem category_sentinel_or_trimmed:
  "(add_proverb proverbs t m tr c = Inr (Added doc) \<longrightarrow> category_stored c doc) \<and>
   (save_changes proverbs selected t m tr c = Inr (Updated doc_id doc) \<longrightarrow> category_stored c doc) \<and>
   (import_candidate existing p = Inr (Some data) \<longrightarrow> candidate_category_stored p data) \<and>
   (map_raise (\<lambda>(doc_id, fields). norm_text fields) st = Inr existing \<longrightarrow>
      list_all2 candidate_category_stored (handed_over existing batch) (fst (upload st batch))) \<and>
   (map_raise (\<lambda>(doc_id, fields). norm_text fields) st = Inl err \<longrightarrow>
      fst (upload st batch) = []) \<and>
   ((\<forall>q\<in>set batch. well_typed_candidate q) \<longrightarrow>
      handed_over existing batch = filter (admitted existing) batch)"
proof (intro conjI impI)
  assume "add_proverb proverbs t m tr c = Inr (Added doc)"
  then show "category_stored c doc" by (rule add_proverb_category)
next
  assume "save_changes proverbs selected t m tr c = Inr (Updated doc_id doc)"
  then show "category_stored c doc" by (rule save_changes_category)
next
  assume "import_candidate existing p = Inr (Some data)"
  then show "candidate_category_stored p data" by (rule import_candidate_category_stored)
next
  assume "map_raise (\<lambda>(doc_id, fields). norm_text fields) st = Inr existing"
  then show "list_all2 candidate_category_stored (handed_over existing batch)
               (fst (upload st batch))"
    by (rule upload_pairs)
next
  assume "map_raise (\<lambda>(doc_id, fields). norm_text fields) st = Inl err"
  then show "fst (upload st batch) = []" by (simp add: upload_def)
next
  assume "\<forall>q\<in>set batch. well_typed_candidate q"
  then show "handed_over existing batch = filter (admitted existing) batch"
    by (rule handed_over_well_typed)
qed

lemma add_proverb_category_example:
  "add_proverb [] ''Khomo'' ''m'' [] '' Wisdom '' =
   Inr (Added [''text'' \<mapsto> PStr ''Khomo'', ''meaning'' \<mapsto> PStr ''m'',
     ''translation'' \<mapsto> PStr [], ''category'' \<mapsto> PStr ''Wisdom'',
     ''keywords'' \<mapsto> PList [PStr ''khomo'']])"
  by (simp add: add_proverb_def string_eval keywords_of_def or_uncategorized_def)

lemma save_changes_category_example:
  "save_changes [[''id'' \<mapsto> PStr ''a1'', ''text'' \<mapsto> PStr ''Khomo'', ''category'' \<mapsto> PStr ''Animals'']]
     [''id'' \<mapsto> PStr ''a1'', ''text'' \<mapsto> PStr ''Khomo'', ''category'' \<mapsto> PStr ''Animals'']
     ''Khomo'' ''m'' [] ''   '' =
   Inr (Updated (PStr ''a1'') [''text'' \<mapsto> PStr ''Khomo'', ''meaning'' \<mapsto> PStr ''m'',
     ''translation'' \<mapsto> PStr [], ''category'' \<mapsto> PStr ''Uncategorized'',
     ''keywords'' \<mapsto> PList [PStr ''khomo'']])"
  by (simp add: save_changes_def getitem_def string_eval keywords_of_def or_uncategorized_def)

lemma upload_category_example:
  "upload []
     [[''text'' \<mapsto> PStr ''Tau'', ''category'' \<mapsto> PStr '' Wisdom ''],
      [''text'' \<mapsto> PStr '' '', ''category'' \<mapsto> PStr ''Skipped''],
      [''text'' \<mapsto> PStr ''Ntja'', ''category'' \<mapsto> PStr ''Animals''],
      [''text'' \<mapsto> PStr ''Khomo'']] =
   ([[''text'' \<mapsto> PStr ''Tau'', ''meaning'' \<mapsto> PStr [],
      ''translation'' \<mapsto> PStr [], ''category'' \<mapsto> PStr ''Wisdom'',
      ''keywords'' \<mapsto> PList [PStr ''tau'']],
     [''text'' \<mapsto> PStr ''Ntja'', ''meaning'' \<mapsto> PStr [],
      ''translation'' \<mapsto> PStr [], ''category'' \<mapsto> PStr ''Animals'',
      ''keywords'' \<mapsto> PList [PStr ''ntja'']],
     [''text'' \<mapsto> PStr ''Khomo'', ''meaning'' \<mapsto> PStr [],
      ''translation'' \<mapsto> PStr [], ''category'' \<mapsto> PStr ''Uncategorized'',
      ''keywords'' \<mapsto> PList [PStr ''khomo'']]], 3, Completed)"
  by (simp add: importer_eval string_eval)

lemma handed_over_example:
  "handed_over []
     [[''text'' \<mapsto> PStr ''Tau'', ''category'' \<mapsto> PStr '' Wisdom ''],
      [''text'' \<mapsto> PStr '' '', ''category'' \<mapsto> PStr ''Skipped''],
      [''text'' \<mapsto> PStr ''Ntja'', ''category'' \<mapsto> PStr ''Animals''],
      [''text'' \<mapsto> PStr ''Khomo'']] =
   [[''text'' \<mapsto> PStr ''Tau'', ''category'' \<mapsto> PStr '' Wisdom ''],
    [''text'' \<mapsto> PStr ''Ntja'', ''category'' \<mapsto> PStr ''Animals''],
    [''text'' \<mapsto> PStr ''Khomo'']]"
  by (simp add: importer_eval string_eval)

lemma no_keys_example: "map_raise (\<lambda>(doc_id, fields). norm_text fields) [] = Inr []"
  by simp

theorem category_sentinel_or_trimmed_witness:
  "category_stored '' Wisdom ''
     [''text'' \<mapsto> PStr ''Khomo'', ''meaning'' \<mapsto> PStr ''m'',
      ''translation'' \<mapsto> PStr [], ''category'' \<mapsto> PStr ''Wisdom'',
      ''keywords'' \<mapsto> PList [PStr ''khomo'']] \<and>
   category_stored ''   ''
     [''text'' \<mapsto> PStr ''Khomo'', ''meaning'' \<mapsto> PStr ''m'',
      ''translation'' \<mapsto> PStr [], ''category'' \<mapsto> PStr ''Uncategorized'',
      ''keywords'' \<mapsto> PList [PStr ''khomo'']] \<and>
   list_all2 candidate_category_stored
     [[''text'' \<mapsto> PStr ''Tau'', ''category'' \<mapsto> PStr '' Wisdom ''],
      [''text'' \<mapsto> PStr ''Ntja'', ''category'' \<mapsto> PStr ''Animals''],
      [''text'' \<mapsto> PStr ''Khomo'']]
     [[''text'' \<mapsto> PStr ''Tau'', ''meaning'' \<mapsto> PStr [],
       ''translation'' \<mapsto> PStr [], ''category'' \<mapsto> PStr ''Wisdom'',
       ''keywords'' \<mapsto> PList [PStr ''tau'']],
      [''text'' \<mapsto> PStr ''Ntja'', ''meaning'' \<mapsto> PStr [],
       ''translation'' \<mapsto> PStr [], ''category'' \<mapsto> PStr ''Animals'',
       ''keywords'' \<mapsto> PList [PStr ''ntja'']],
      [''text'' \<mapsto> PStr ''Khomo'', ''meaning'' \<mapsto> PStr [],
       ''translation'' \<mapsto> PStr [], ''category'' \<mapsto> PStr ''Uncategorized'',
       ''keywords'' \<mapsto> PList [PStr ''khomo'']]] \<and>
   category_stored ''Animals''
     [''text'' \<mapsto> PStr ''Ntja'', ''meaning'' \<mapsto> PStr [],
      ''translation'' \<mapsto> PStr [], ''category'' \<mapsto> PStr ''Animals'',
      ''keywords'' \<mapsto> PList [PStr ''ntja'']] \<and>
   \<not> category_stored '' Wisdom ''
     [''text'' \<mapsto> PStr ''Ntja'', ''meaning'' \<mapsto> PStr [],
      ''translation'' \<mapsto> PStr [], ''category'' \<mapsto> PStr ''Animals'',
      ''keywords'' \<mapsto> PList [PStr ''ntja'']]"
proof (intro conjI)
  show "category_stored '' Wisdom ''
     [''text'' \<mapsto> PStr ''Khomo'', ''meaning'' \<mapsto> PStr ''m'',
      ''translation'' \<mapsto> PStr [], ''category'' \<mapsto> PStr ''Wisdom'',
      ''keywords'' \<mapsto> PList [PStr ''khomo'']]"
    by (rule category_sentinel_or_trimmed
          [THEN conjunct1, THEN mp, OF add_proverb_category_example])
next
  show "category_stored ''   ''
     [''text'' \<mapsto> PStr ''Khomo'', ''meaning'' \<mapsto> PStr ''m'',
      ''translation'' \<mapsto> PStr [], ''category'' \<mapsto> PStr ''Uncategorized'',
      ''keywords'' \<mapsto> PList [PStr ''khomo'']]"
    by (rule category_sentinel_or_trimmed
          [THEN conjunct2, THEN conjunct1, THEN mp, OF save_changes_category_example])
next
  have pairs: "list_all2 candidate_category_stored
     (handed_over []
       [[''text'' \<mapsto> PStr ''Tau'', ''category'' \<mapsto> PStr '' Wisdom ''],
        [''text'' \<mapsto> PStr '' '', ''category'' \<mapsto> PStr ''Skipped''],
        [''text'' \<mapsto> PStr ''Ntja'', ''category'' \<mapsto> PStr ''Animals''],
        [''text'' \<mapsto> PStr ''Khomo'']])
     (fst (upload []
       [[''text'' \<mapsto> PStr ''Tau'', ''category'' \<mapsto> PStr '' Wisdom ''],
        [''text'' \<mapsto> PStr '' '', ''category'' \<mapsto> PStr ''Skipped''],
        [''text'' \<mapsto> PStr ''Ntja'', ''category'' \<mapsto> PStr ''Animals''],
        [''text'' \<mapsto> PStr ''Khomo'']]))"
    by (rule category_sentinel_or_trimmed
          [THEN conjunct2, THEN conjunct2, THEN conjunct2, THEN conjunct1, THEN mp,
           OF no_keys_example])
  show "list_all2 candidate_category_stored
     [[''text'' \<mapsto> PStr ''Tau'', ''category'' \<mapsto> PStr '' Wisdom ''],
      [''text'' \<mapsto> PStr ''Ntja'', ''category'' \<mapsto> PStr ''Animals''],
      [''text'' \<mapsto> PStr ''Khomo'']]
     [[''text'' \<mapsto> PStr ''Tau'', ''meaning'' \<mapsto> PStr [],
       ''translation'' \<mapsto> PStr [], ''category'' \<mapsto> PStr ''Wisdom'',
       ''keywords'' \<mapsto> PList [PStr ''tau'']],
      [''text'' \<mapsto> PStr ''Ntja'', ''meaning'' \<mapsto> PStr [],
       ''translation'' \<mapsto> PStr [], ''category'' \<mapsto> PStr ''Animals'',
       ''keywords'' \<mapsto> PList [PStr ''ntja'']],
      [''text'' \<mapsto> PStr ''Khomo'', ''meaning'' \<mapsto> PStr [],
       ''translation'' \<mapsto> PStr [], ''category'' \<mapsto> PStr ''Uncategorized'',
       ''keywords'' \<mapsto> PList [PStr ''khomo'']]]"
    using pairs unfolding handed_over_example upload_category_example by simp
next
  show "category_stored ''Animals''
     [''text'' \<mapsto> PStr ''Ntja'', ''meaning'' \<mapsto> PStr [],
      ''translation'' \<mapsto> PStr [], ''category'' \<mapsto> PStr ''Animals'',
      ''keywords'' \<mapsto> PList [PStr ''ntja'']]"
    by (simp add: category_stored_def string_eval)
next
  show "\<not> category_stored '' Wisdom ''
     [''text'' \<mapsto> PStr ''Ntja'', ''meaning'' \<mapsto> PStr [],
      ''translation'' \<mapsto> PStr [], ''category'' \<mapsto> PStr ''Animals'',
      ''keywords'' \<mapsto> PList [PStr ''ntja'']]"
    by (simp add: category_stored_def string_eval)
qed

section \<open>Candidates with fields that are not strings\<close>

lemma import_candidate_text_missing:
  "p ''text'' = None \<or> p ''text'' = Some PNone \<Longrightarrow> import_candidate existing p = Inr None"
  by (auto simp: import_candidate_def dict_get_def py_or_def strip_def)

lemma import_candidate_not_admitted:
  assumes "str_null_or_absent (p ''text'')" and "\<not> admitted existing p"
  shows "import_candidate existing p = Inr None"
proof -
  have "py_or (dict_get p ''text'') (PStr []) = PStr (field_str p ''text'')"
    using assms(1) by (rule py_or_text)
  then show ?thesis
    using assms(2) by (auto simp: import_candidate_def admitted_def key_of_def)
qed

lemma py_strip_not_str:
  "\<not> str_or_absent (p k) \<Longrightarrow> py_strip (dict_get_default p k (PStr [])) = Inl AttributeError"
  by (cases "p k" rule: str_or_absent.cases) (simp_all add: dict_get_default_def)

lemma make_data_raises:
  assumes "\<not> (str_or_absent (p ''meaning'') \<and> str_or_absent (p ''translation'') \<and>
              str_or_absent (p ''category''))"
  shows "make_data p text = Inl AttributeError"
proof (cases "str_or_absent (p ''meaning'')")
  case False
  then show ?thesis by (simp add: make_data_def py_strip_not_str)
next
  case m: True
  show ?thesis
  proof (cases "str_or_absent (p ''translation'')")
    case False
    then show ?thesis
      using m by (simp add: make_data_def py_strip_not_str get_default_str)
  next
    case tr: True
    with m assms have "\<not> str_or_absent (p ''category'')" by simp
    then show ?thesis
      using m tr by (simp add: make_data_def py_strip_not_str get_default_str)
  qed
qed

lemma admitted_text:
  "admitted existing p \<Longrightarrow> \<exists>s. p ''text'' = Some (PStr s) \<and> s \<noteq> []"
  by (cases "p ''text''" rule: str_null_or_absent.cases)
     (auto simp: admitted_def field_str_def strip_def)

lemma import_candidate_raises:
  assumes adm: "admitted existing p"
    and bad: "\<not> (str_or_absent (p ''meaning'') \<and> str_or_absent (p ''translation'') \<and>
              str_or_absent (p ''category''))"
  shows "import_candidate existing p = Inl AttributeError"
proof -
  obtain s where "p ''text'' = Some (PStr s)" using admitted_text [OF adm] by blast
  then have "str_null_or_absent (p ''text'')" by simp
  then have "py_or (dict_get p ''text'') (PStr []) = PStr (field_str p ''text'')"
    by (rule py_or_text)
  then show ?thesis
    using adm make_data_raises [OF bad]
    by (simp add: import_candidate_def admitted_def key_of_def)
qed

text \<open>
  C10, as amended. What one candidate does in the importer's loop depends on its text first:
  a candidate whose \<^verbatim>\<open>text\<close> is missing or \<^verbatim>\<open>null\<close> is skipped; so is every candidate whose
  text (a string, \<^verbatim>\<open>null\<close> or missing) is empty after trimming or already among the existing
  keys, whatever its other fields hold. A candidate that passes these two checks raises
  \<^verbatim>\<open>AttributeError\<close> when its \<^verbatim>\<open>meaning\<close>, \<^verbatim>\<open>translation\<close> or \<^verbatim>\<open>category\<close> is present with a
  value that is not a string (\<^verbatim>\<open>null\<close> for one), and is stored in canonical form when each
  of the three is a string or missing.
\<close>

theorem import_candidate_null_fields:
  "(p ''text'' = None \<or> p ''text'' = Some PNone \<longrightarrow> import_candidate existing p = Inr None) \<and>
   (str_null_or_absent (p ''text'') \<and> \<not> admitted existing p \<longrightarrow>
      import_candidate existing p = Inr None) \<and>
   (admitted existing p \<and>
    \<not> (str_or_absent (p ''meaning'') \<and> str_or_absent (p ''translation'') \<and>
       str_or_absent (p ''category'')) \<longrightarrow>
      import_candidate existing p = Inl AttributeError) \<and>
   (admitted existing p \<and> str_or_absent (p ''meaning'') \<and> str_or_absent (p ''translation'') \<and>
    str_or_absent (p ''category'') \<longrightarrow>
      import_candidate existing p = Inr (Some (normalized p)))"
proof (intro conjI impI)
  assume "p ''text'' = None \<or> p ''text'' = Some PNone"
  then show "import_candidate existing p = Inr None" by (rule import_candidate_text_missing)
next
  assume "str_null_or_absent (p ''text'') \<and> \<not> admitted existing p"
  then show "import_candidate existing p = Inr None"
    using import_candidate_not_admitted by blast
next
  assume "admitted existing p \<and>
    \<not> (str_or_absent (p ''meaning'') \<and> str_or_absent (p ''translation'') \<and>
       str_or_absent (p ''category''))"
  then show "import_candidate existing p = Inl AttributeError"
    using import_candidate_raises by blast
next
  assume a: "admitted existing p \<and> str_or_absent (p ''meaning'') \<and>
    str_or_absent (p ''translation'') \<and> str_or_absent (p ''category'')"
  then obtain s where "p ''text'' = Some (PStr s)" using admitted_text by blast
  then have "str_null_or_absent (p ''text'')" by simp
  with a have "well_typed_candidate p" by (simp add: well_typed_candidate_def)
  then show "import_candidate existing p = Inr (Some (normalized p))"
    using a by (simp add: import_candidate_well_typed)
qed

text \<open>
  C10, as stated, fails: a candidate with an empty text and a \<^verbatim>\<open>null\<close> meaning is skipped
  without any exception, because the loop reaches \<^verbatim>\<open>continue\<close> before it reads the meaning.
\<close>

theorem import_candidate_null_meaning_skipped:
  "import_candidate [] [''text'' \<mapsto> PStr '''', ''meaning'' \<mapsto> PNone] = Inr None"
  by (simp add: importer_eval string_eval)

theorem import_candidate_null_fields_witness:
  "import_candidate [] [''meaning'' \<mapsto> PStr ''m''] = Inr None \<and>
   import_candidate [''khomo''] [''text'' \<mapsto> PStr ''Khomo '', ''translation'' \<mapsto> PNone] = Inr None \<and>
   import_candidate [] [''text'' \<mapsto> PStr ''Khomo'', ''meaning'' \<mapsto> PNone] = Inl AttributeError \<and>
   import_candidate [] [''text'' \<mapsto> PStr ''Khomo'', ''category'' \<mapsto> PInt 3] = Inl AttributeError"
proof (intro conjI)
  show "import_candidate [] [''meaning'' \<mapsto> PStr ''m''] = Inr None"
    using import_candidate_null_fields [where p = "[''meaning'' \<mapsto> PStr ''m'']" and existing = "[]"]
    by simp
next
  show "import_candidate [''khomo''] [''text'' \<mapsto> PStr ''Khomo '', ''translation'' \<mapsto> PNone] = Inr None"
    using import_candidate_null_fields
      [where p = "[''text'' \<mapsto> PStr ''Khomo '', ''translation'' \<mapsto> PNone]" and existing = "[''khomo'']"]
    by (simp add: admitted_def key_of_def field_str_def string_eval)
next
  show "import_candidate [] [''text'' \<mapsto> PStr ''Khomo'', ''meaning'' \<mapsto> PNone] = Inl AttributeError"
    using import_candidate_null_fields
      [where p = "[''text'' \<mapsto> PStr ''Khomo'', ''meaning'' \<mapsto> PNone]" and existing = "[]"]
    by (simp add: admitted_def key_of_def field_str_def string_eval)
next
  show "import_candidate [] [''text'' \<mapsto> PStr ''Khomo'', ''category'' \<mapsto> PInt 3] = Inl AttributeError"
    using import_candidate_null_fields
      [where p = "[''text'' \<mapsto> PStr ''Khomo'', ''category'' \<mapsto> PInt 3]" and existing = "[]"]
    by (simp add: admitted_def key_of_def field_str_def string_eval)
qed

section \<open>Required fields and uniqueness\<close>

lemma add_proverb_requires_text_and_meaning:
  assumes "map_raise norm_text proverbs = Inr existing_texts"
    and "strip new_text = [] \<or> strip new_meaning = []"
  shows "add_proverb proverbs new_text new_meaning new_translation new_category =
           Inr (Rejected ''Proverb text and meaning are required.'')"
  using assms by (simp add: add_proverb_def)

text \<open>
  C4. The add form rejects a text or a meaning that is empty after trimming
  (\<open>add_proverb_requires_text_and_meaning\<close>). The edit form has no such check: saving the
  only record of a store with a blank text and an empty meaning passes the duplicate check
  and hands a record with empty text and empty meaning to \<^verbatim>\<open>update_proverb_doc\<close>.
\<close>

theorem save_changes_accepts_empty_text:
  "save_changes
     [[''id'' \<mapsto> PStr ''a1'', ''text'' \<mapsto> PStr ''Khomo'', ''meaning'' \<mapsto> PStr ''cow'']]
     [''id'' \<mapsto> PStr ''a1'', ''text'' \<mapsto> PStr ''Khomo'', ''meaning'' \<mapsto> PStr ''cow'']
     ''  '' [] [] [] =
   Inr (Updated (PStr ''a1'')
     [''text'' \<mapsto> PStr [], ''meaning'' \<mapsto> PStr [], ''translation'' \<mapsto> PStr [],
      ''category'' \<mapsto> PStr ''Uncategorized'', ''keywords'' \<mapsto> PList []])"
  by (simp add: save_changes_def getitem_def string_eval keywords_of_def or_uncategorized_def)

lemma map_raise_snoc:
  "map_raise f (xs @ [x]) =
     (case map_raise f xs of
        Inl e \<Rightarrow> Inl e
      | Inr ys \<Rightarrow> (case f x of Inl e \<Rightarrow> Inl e | Inr y \<Rightarrow> Inr (ys @ [y])))"
  by (induction xs) (simp_all split: sum.splits)

lemma map_raise_map:
  "map_raise f (map g xs) = map_raise (\<lambda>x. f (g x)) xs"
  by (induction xs) (simp_all split: sum.splits)

lemma norm_text_loaded:
  "norm_text ([''id'' \<mapsto> PStr doc_id] ++ fields) = norm_text fields"
  by (simp add: norm_text_def dict_get_def map_add_def split: option.splits)

lemma existing_texts_of_store:
  "map_raise norm_text (load_proverbs st) = map_raise (\<lambda>(doc_id, fields). norm_text fields) st"
proof -
  have "(\<lambda>x. norm_text ((\<lambda>(doc_id, fields). [''id'' \<mapsto> PStr doc_id] ++ fields) x))
        = (\<lambda>(doc_id, fields). norm_text fields)"
    by (rule ext) (simp add: norm_text_loaded split: prod.splits)
  then show ?thesis
    by (simp add: load_proverbs_def map_raise_map)
qed

lemma add_proverb_keeps_texts_unique:
  assumes uniq: "unique_texts st"
    and add: "add_proverb (load_proverbs st) t m tr c = Inr (Added doc)"
  shows "unique_texts (collection_add st new_id doc)"
proof -
  obtain keys where keys: "map_raise (\<lambda>(doc_id, fields). norm_text fields) st = Inr keys"
    and dist: "distinct keys"
    using uniq by (auto simp: unique_texts_def split: sum.splits)
  have loaded: "map_raise norm_text (load_proverbs st) = Inr keys"
    using keys by (simp add: existing_texts_of_store)
  have fresh: "lower (strip t) \<notin> set keys" and nonempty: "strip t \<noteq> []"
    using add loaded by (auto simp: add_proverb_def split: if_splits)
  have "doc ''text'' = Some (PStr (strip t))"
    using add_proverb_Added [OF add] by simp
  then have "norm_text doc = Inr (lower (strip t))"
    using nonempty by (simp add: norm_text_def dict_get_def py_or_def strip_strip)
  then show ?thesis
    using keys dist fresh
    by (simp add: unique_texts_def collection_add_def map_raise_snoc)
qed

text \<open>
  C1. The add path keeps the normalized texts of the store distinct
  (\<open>add_proverb_keeps_texts_unique\<close>). The bulk importer does not: from the empty store,
  which has the property, importing the candidates "Khomo" and " khomo" leaves two records
  with the same trimmed, lower-cased text.
\<close>

theorem bulk_import_breaks_uniqueness:
  "unique_texts [] \<and>
   \<not> unique_texts
        (add_each (\<lambda>n. if n = 0 then ''id0'' else ''id1'') []
           (fst (upload [] [[''text'' \<mapsto> PStr ''Khomo'', ''meaning'' \<mapsto> PStr ''cow''],
                            [''text'' \<mapsto> PStr '' khomo'', ''meaning'' \<mapsto> PStr ''cow'']])))"
  by (simp add: unique_texts_def collection_add_def importer_eval string_eval)

section \<open>Keyword search\<close>










section \<open>Category listing\<close>






section \<open>The duplicate check of an edit\<close>

lemma other_texts_step:
  assumes "p ''id'' = Some pid" and "selected ''id'' = Some sid"
    and "str_null_or_absent (p ''text'')"
    and "other_texts selected ps = Inr ts"
  shows "other_texts selected (p # ps) = Inr (if pid \<noteq> sid then key_of p # ts else ts)"
  using assms(1,2,4) norm_text_well_typed [of p, OF assms(3)]
  by (simp add: getitem_def)

lemma other_texts_filter:
  assumes "\<forall>p\<in>set ps. loaded_record p" and "selected ''id'' = Some sid"
  shows "other_texts selected ps =
           Inr (map key_of (filter (\<lambda>p. p ''id'' \<noteq> Some sid) ps))"
  using assms(1)
proof (induction ps)
  case Nil
  then show ?case by simp
next
  case (Cons p ps)
  then have "loaded_record p" and rest: "\<forall>q\<in>set ps. loaded_record q"
    by simp_all
  then obtain pid where pid: "p ''id'' = Some pid" and ptext: "str_null_or_absent (p ''text'')"
    by (auto simp: loaded_record_def)
  have tail: "other_texts selected ps = Inr (map key_of (filter (\<lambda>p. p ''id'' \<noteq> Some sid) ps))"
    using rest by (rule Cons.IH)
  show ?case
    unfolding other_texts_step [where p = p and selected = selected, OF pid assms(2) ptext tail]
    using pid by simp
qed

lemma duplicate_of_other_filter:
  assumes "selected ''id'' = Some sid"
  shows "duplicate_of_other ps selected t =
           (lower (strip t) \<in> set (map key_of (filter (\<lambda>p. p ''id'' \<noteq> Some sid) ps)))"
proof
  assume "duplicate_of_other ps selected t"
  then obtain p where "p \<in> set ps" "p ''id'' \<noteq> Some sid" "key_of p = lower (strip t)"
    using assms unfolding duplicate_of_other_def by auto
  then have "p \<in> set (filter (\<lambda>p. p ''id'' \<noteq> Some sid) ps)" by simp
  then have "key_of p \<in> set (map key_of (filter (\<lambda>p. p ''id'' \<noteq> Some sid) ps))"
    by (simp only: set_map) (rule imageI)
  then show "lower (strip t) \<in> set (map key_of (filter (\<lambda>p. p ''id'' \<noteq> Some sid) ps))"
    using \<open>key_of p = lower (strip t)\<close> by simp
next
  assume "lower (strip t) \<in> set (map key_of (filter (\<lambda>p. p ''id'' \<noteq> Some sid) ps))"
  then obtain p where "p \<in> set ps" "p ''id'' \<noteq> Some sid" "key_of p = lower (strip t)"
    by auto
  then show "duplicate_of_other ps selected t"
    using assms unfolding duplicate_of_other_def by auto
qed

lemma save_changes_loaded:
  assumes "\<forall>p\<in>set ps. loaded_record p" and "selected ''id'' = Some sid"
  shows "save_changes ps selected t m tr c =
           Inr (if duplicate_of_other ps selected t
                then Rejected ''Cannot rename: another proverb with that exact text exists.''
                else Updated sid
                       [''text'' \<mapsto> PStr (strip t),
                        ''meaning'' \<mapsto> PStr (strip m),
                        ''translation'' \<mapsto> PStr (strip tr),
                        ''category'' \<mapsto> PStr (or_uncategorized (strip c)),
                        ''keywords'' \<mapsto> keywords_of t])"
  unfolding save_changes_def
    other_texts_filter [where ps = ps and selected = selected and sid = sid, OF assms]
    duplicate_of_other_filter [where selected = selected and sid = sid and ps = ps and t = t,
      OF assms(2)]
  using assms(2) by (simp add: getitem_def)

text \<open>
  C9. For every list of loaded records (each has an identifier, and a text that is a
  string, \<^verbatim>\<open>null\<close> or missing) and every selected record in it, saving an edit is rejected
  as a duplicate if and only if the trimmed, lower-cased edited text equals the trimmed,
  lower-cased text of some record with a different identifier; an edit that is not rejected
  updates the selected record. An edit that keeps the record's own text passes the check
  when no record with a different identifier has the same trimmed, lower-cased text: the
  edited record is left out of the comparison, records that share its text are not.
\<close>

theorem save_changes_duplicate_check:
  assumes "\<forall>p\<in>set proverbs. loaded_record p" and "selected \<in> set proverbs"
  shows "((save_changes proverbs selected t m tr c =
             Inr (Rejected ''Cannot rename: another proverb with that exact text exists.''))
            = duplicate_of_other proverbs selected t) \<and>
         (\<not> duplicate_of_other proverbs selected t \<longrightarrow>
            (\<exists>doc. save_changes proverbs selected t m tr c
                      = Inr (Updated (the (selected ''id'')) doc))) \<and>
         ((\<forall>p\<in>set proverbs. p ''id'' \<noteq> selected ''id'' \<longrightarrow> key_of p \<noteq> key_of selected) \<longrightarrow>
            (\<exists>doc. save_changes proverbs selected (field_str selected ''text'') m tr c
                      = Inr (Updated (the (selected ''id'')) doc)))"
proof -
  have "loaded_record selected" using assms by blast
  then obtain sid where sid: "selected ''id'' = Some sid"
    by (auto simp: loaded_record_def)
  have run: "save_changes proverbs selected u m tr c =
           Inr (if duplicate_of_other proverbs selected u
                then Rejected ''Cannot rename: another proverb with that exact text exists.''
                else Updated sid
                       [''text'' \<mapsto> PStr (strip u),
                        ''meaning'' \<mapsto> PStr (strip m),
                        ''translation'' \<mapsto> PStr (strip tr),
                        ''category'' \<mapsto> PStr (or_uncategorized (strip c)),
                        ''keywords'' \<mapsto> keywords_of u])" for u
    using assms(1) sid
    by (rule save_changes_loaded [where ps = proverbs and selected = selected and sid = sid])
  have the_sid: "the (selected ''id'') = sid" using sid by simp
  show ?thesis
  proof (intro conjI impI)
    show "(save_changes proverbs selected t m tr c =
             Inr (Rejected ''Cannot rename: another proverb with that exact text exists.''))
            = duplicate_of_other proverbs selected t"
      unfolding run by simp
  next
    assume "\<not> duplicate_of_other proverbs selected t"
    then show "\<exists>doc. save_changes proverbs selected t m tr c
                      = Inr (Updated (the (selected ''id'')) doc)"
      unfolding run the_sid by simp
  next
    assume others: "\<forall>p\<in>set proverbs. p ''id'' \<noteq> selected ''id'' \<longrightarrow> key_of p \<noteq> key_of selected"
    have "\<not> duplicate_of_other proverbs selected (field_str selected ''text'')"
    proof
      assume "duplicate_of_other proverbs selected (field_str selected ''text'')"
      then obtain p where "p \<in> set proverbs" "p ''id'' \<noteq> selected ''id''"
        "key_of p = lower (strip (field_str selected ''text''))"
        unfolding duplicate_of_other_def by blast
      then show False using others by (simp add: key_of_def)
    qed
    then show "\<exists>doc. save_changes proverbs selected (field_str selected ''text'') m tr c
                      = Inr (Updated (the (selected ''id'')) doc)"
      unfolding run the_sid by simp
  qed
qed

text \<open>Two records with different identifiers share the trimmed, lower-cased text "khomo":
  the edit of the first that keeps its text "Khomo" is rejected.\<close>

theorem save_changes_own_text_rejected:
  "save_changes
     [[''id'' \<mapsto> PStr ''a1'', ''text'' \<mapsto> PStr ''Khomo''],
      [''id'' \<mapsto> PStr ''a2'', ''text'' \<mapsto> PStr ''khomo '']]
     [''id'' \<mapsto> PStr ''a1'', ''text'' \<mapsto> PStr ''Khomo'']
     ''Khomo'' ''cow'' [] [] =
   Inr (Rejected ''Cannot rename: another proverb with that exact text exists.'')"
  by (simp add: save_changes_def getitem_def norm_text_def py_or_def dict_get_def string_eval)

lemma loaded_example:
  "\<forall>p\<in>set [[''id'' \<mapsto> PStr ''a1'', ''text'' \<mapsto> PStr ''Khomo''],
             [''id'' \<mapsto> PStr ''a2'', ''text'' \<mapsto> PStr ''Tau'']]. loaded_record p"
  by (simp add: loaded_record_def)

lemma selected_example:
  "[''id'' \<mapsto> PStr ''a1'', ''text'' \<mapsto> PStr ''Khomo'']
     \<in> set [[''id'' \<mapsto> PStr ''a1'', ''text'' \<mapsto> PStr ''Khomo''],
             [''id'' \<mapsto> PStr ''a2'', ''text'' \<mapsto> PStr ''Tau'']]"
  by simp

lemma duplicate_of_other_example:
  "duplicate_of_other
     [[''id'' \<mapsto> PStr ''a1'', ''text'' \<mapsto> PStr ''Khomo''],
      [''id'' \<mapsto> PStr ''a2'', ''text'' \<mapsto> PStr ''Tau'']]
     [''id'' \<mapsto> PStr ''a1'', ''text'' \<mapsto> PStr ''Khomo''] '' TAU ''"
  by (simp add: duplicate_of_other_def key_of_def field_str_def string_eval)

lemma no_other_example:
  "\<forall>p\<in>set [[''id'' \<mapsto> PStr ''a1'', ''text'' \<mapsto> PStr ''Khomo''],
             [''id'' \<mapsto> PStr ''a2'', ''text'' \<mapsto> PStr ''Tau'']].
     p ''id'' \<noteq> [''id'' \<mapsto> PStr ''a1'', ''text'' \<mapsto> PStr ''Khomo''] ''id'' \<longrightarrow>
     key_of p \<noteq> key_of [''id'' \<mapsto> PStr ''a1'', ''text'' \<mapsto> PStr ''Khomo'']"
  by (simp add: key_of_def field_str_def string_eval)

theorem save_changes_duplicate_check_witness:
  "save_changes
     [[''id'' \<mapsto> PStr ''a1'', ''text'' \<mapsto> PStr ''Khomo''],
      [''id'' \<mapsto> PStr ''a2'', ''text'' \<mapsto> PStr ''Tau'']]
     [''id'' \<mapsto> PStr ''a1'', ''text'' \<mapsto> PStr ''Khomo'']
     '' TAU '' ''lion'' [] [] =
   Inr (Rejected ''Cannot rename: another proverb with that exact text exists.'') \<and>
   (\<exists>doc. save_changes
     [[''id'' \<mapsto> PStr ''a1'', ''text'' \<mapsto> PStr ''Khomo''],
      [''id'' \<mapsto> PStr ''a2'', ''text'' \<mapsto> PStr ''Tau'']]
     [''id'' \<mapsto> PStr ''a1'', ''text'' \<mapsto> PStr ''Khomo'']
     ''Khomo'' ''cow'' [] [] = Inr (Updated (PStr ''a1'') doc))"
proof (rule conjI)
  show "save_changes
     [[''id'' \<mapsto> PStr ''a1'', ''text'' \<mapsto> PStr ''Khomo''],
      [''id'' \<mapsto> PStr ''a2'', ''text'' \<mapsto> PStr ''Tau'']]
     [''id'' \<mapsto> PStr ''a1'', ''text'' \<mapsto> PStr ''Khomo'']
     '' TAU '' ''lion'' [] [] =
   Inr (Rejected ''Cannot rename: another proverb with that exact text exists.'')"
    by (rule save_changes_duplicate_check
          [OF loaded_example selected_example, THEN conjunct1, THEN iffD2,
           OF duplicate_of_other_example])
next
  have "\<exists>doc. save_changes
     [[''id'' \<mapsto> PStr ''a1'', ''text'' \<mapsto> PStr ''Khomo''],
      [''id'' \<mapsto> PStr ''a2'', ''text'' \<mapsto> PStr ''Tau'']]
     [''id'' \<mapsto> PStr ''a1'', ''text'' \<mapsto> PStr ''Khomo'']
     (field_str [''id'' \<mapsto> PStr ''a1'', ''text'' \<mapsto> PStr ''Khomo''] ''text'')
     ''cow'' [] [] =
       Inr (Updated (the ([''id'' \<mapsto> PStr ''a1'', ''text'' \<mapsto> PStr ''Khomo''] ''id'')) doc)"
    by (rule save_changes_duplicate_check
          [OF loaded_example selected_example, THEN conjunct2, THEN conjunct2, THEN mp,
           OF no_other_example])
  then show "\<exists>doc. save_changes
     [[''id'' \<mapsto> PStr ''a1'', ''text'' \<mapsto> PStr ''Khomo''],
      [''id'' \<mapsto> PStr ''a2'', ''text'' \<mapsto> PStr ''Tau'']]
     [''id'' \<mapsto> PStr ''a1'', ''text'' \<mapsto> PStr ''Khomo'']
     ''Khomo'' ''cow'' [] [] = Inr (Updated (PStr ''a1'') doc)"
    by (simp add: field_str_def)
qed

end
